theory Spec2Isabelle
  imports
    Complex_Main
    "HOL-Library.Multiset"
    "HOL-Library.Char_ord"
    "HOL-Library.List_Lexorder"
    "HOL-Library.Product_Lexorder"
begin

section \<open>Python values used by the decoders\<close>

text \<open>
  A Python \<^verbatim>\<open>dict\<close> literal \<^verbatim>\<open>{k1: v1, k2: v2, ...}\<close> is evaluated entry by entry, from left
  to right, each entry being stored under its key; an entry whose key is already present
  overwrites the value stored before. The literal is kept as the list of its entries in
  the order of the source text, and \<open>dict_literal\<close> performs the stores.
\<close>

definition dict_literal :: "('k \<times> 'v) list \<Rightarrow> ('k \<rightharpoonup> 'v)" where
  "dict_literal entries = fold (\<lambda>(k, v) m. m(k \<mapsto> v)) entries Map.empty"

text \<open>\<^verbatim>\<open>d.get(key, default)\<close>: the stored value, or the default for an absent key.\<close>

definition dict_get :: "('k \<rightharpoonup> 'v) \<Rightarrow> 'k \<Rightarrow> 'v \<Rightarrow> 'v" where
  "dict_get d key dflt = (case d key of None \<Rightarrow> dflt | Some v \<Rightarrow> v)"

text \<open>
  The decoders return a pair \<^verbatim>\<open>(error_qubit, error_type)\<close> whose components are either
  \<^verbatim>\<open>None\<close> or a value: a qubit index (or, for the surface code, a description) and the
  name of a Pauli error.
\<close>

type_synonym correction = "int option \<times> string option"


section \<open>Five-qubit code: \<^verbatim>\<open>five_qubit_code.py\<close>\<close>

text \<open>The entries of \<^verbatim>\<open>syndrome_table\<close> in \<^verbatim>\<open>decode_five_qubit_syndrome\<close>, in source order.\<close>

definition syndrome_table_entries :: "(string \<times> correction) list" where
  "syndrome_table_entries =
    [(''0000'', (None, None)),
     (''1011'', (Some 0, Some ''X'')),
     (''0111'', (Some 1, Some ''X'')),
     (''1101'', (Some 2, Some ''X'')),
     (''1110'', (Some 3, Some ''X'')),
     (''0110'', (Some 4, Some ''X'')),
     (''0101'', (Some 0, Some ''Z'')),
     (''1010'', (Some 1, Some ''Z'')),
     (''0011'', (Some 2, Some ''Z'')),
     (''1100'', (Some 3, Some ''Z'')),
     (''1001'', (Some 4, Some ''Z'')),
     (''1110'', (Some 0, Some ''Y'')),
     (''1101'', (Some 1, Some ''Y'')),
     (''1110'', (Some 2, Some ''Y'')),
     (''0010'', (Some 3, Some ''Y'')),
     (''1111'', (Some 4, Some ''Y''))]"

definition syndrome_table :: "string \<rightharpoonup> correction" where
  "syndrome_table = dict_literal syndrome_table_entries"

definition decode_five_qubit_syndrome :: "string \<Rightarrow> correction" where
  "decode_five_qubit_syndrome syndrome =
     dict_get syndrome_table syndrome (None, Some ''Unknown'')"


section \<open>Steane code decoder: \<^verbatim>\<open>steane_code.py\<close>\<close>

text \<open>
  Both tables of \<^verbatim>\<open>decode_steane_syndrome\<close> store \<^verbatim>\<open>None\<close> under \<^verbatim>\<open>'000'\<close>, and
  \<^verbatim>\<open>.get(key)\<close> without a default also yields \<^verbatim>\<open>None\<close> for an absent key.
\<close>

definition x_syndrome_table_entries :: "(string \<times> int option) list" where
  "x_syndrome_table_entries =
    [(''000'', None), (''111'', Some 0), (''110'', Some 1), (''101'', Some 2),
     (''011'', Some 3), (''010'', Some 4), (''001'', Some 5), (''100'', Some 6)]"

definition z_syndrome_table_entries :: "(string \<times> int option) list" where
  "z_syndrome_table_entries =
    [(''000'', None), (''111'', Some 0), (''110'', Some 1), (''101'', Some 2),
     (''011'', Some 3), (''010'', Some 4), (''001'', Some 5), (''100'', Some 6)]"

definition x_syndrome_table :: "string \<rightharpoonup> int option" where
  "x_syndrome_table = dict_literal x_syndrome_table_entries"

definition z_syndrome_table :: "string \<rightharpoonup> int option" where
  "z_syndrome_table = dict_literal z_syndrome_table_entries"

definition decode_steane_syndrome :: "string \<Rightarrow> string \<Rightarrow> correction" where
  "decode_steane_syndrome syndrome_x syndrome_z =
     (let x_error_qubit = dict_get x_syndrome_table syndrome_x None;
          z_error_qubit = dict_get z_syndrome_table syndrome_z None
      in if x_error_qubit \<noteq> None \<and> z_error_qubit \<noteq> None then
           (if x_error_qubit = z_error_qubit then (x_error_qubit, Some ''Y'')
            else (None, Some ''Unknown''))
         else if x_error_qubit \<noteq> None then (x_error_qubit, Some ''X'')
         else if z_error_qubit \<noteq> None then (z_error_qubit, Some ''Z'')
         else (None, None))"


section \<open>Surface code decoder: \<^verbatim>\<open>surface_code.py\<close>\<close>

text \<open>Here the first component of the result is a description, not a qubit index.\<close>

definition decode_surface_syndrome :: "string \<Rightarrow> string \<Rightarrow> string option \<times> string option" where
  "decode_surface_syndrome syndrome_x syndrome_z =
     (if syndrome_x = ''0000'' \<and> syndrome_z = ''0000'' then (None, None)
      else if syndrome_x = ''0000'' \<and> syndrome_z \<noteq> ''0000'' then
        (Some ''X-error detected'', Some ''X'')
      else if syndrome_x \<noteq> ''0000'' \<and> syndrome_z = ''0000'' then
        (Some ''Z-error detected'', Some ''Z'')
      else if syndrome_x \<noteq> ''0000'' \<and> syndrome_z \<noteq> ''0000'' then
        (Some ''Y-error or multiple errors'', Some ''Y'')
      else (Some ''Unknown'', Some ''Unknown''))"


section \<open>Exceptions\<close>

text \<open>
  The exceptions the modelled functions can raise: the \<^verbatim>\<open>ValueError\<close> of
  \<^verbatim>\<open>custom_pauli_channel\<close> (the design document calls it \<^verbatim>\<open>InvalidArgument\<close>), an index
  outside a register, and a division by a zero total.
\<close>

datatype error = ValueError string | IndexError | ZeroDivisionError


section \<open>Error channels: \<^verbatim>\<open>error_models.py\<close>\<close>

text \<open>
  The channel constructors hand their arguments to constructors of the simulation
  library (\<^verbatim>\<open>pauli_error\<close>, \<^verbatim>\<open>depolarizing_error\<close>, \<^verbatim>\<open>NoiseModel\<close>), which are not part of
  this program. The model records each such call with the arguments it receives: a
  \<open>quantum_error\<close> is the call made, and a noise model is the list of the errors added to
  it, each with the instruction names it is attached to. What the library does with
  these arguments, its own checks included, is outside the functions below.

  The probabilities are Python numbers. The functions only add, subtract and compare
  them, so the model is stated for any type with these operations; nothing is assumed
  about the arithmetic.
\<close>

datatype 'a quantum_error =
    depolarizing_error 'a nat
  | pauli_error "(string \<times> 'a) list"






section \<open>Circuits\<close>

text \<open>
  A circuit is the list of the operations appended to it, in order. Qubits and classical
  bits are named by their register and their index in it. Barrier labels are used for
  drawing only and are dropped.
\<close>

datatype qubit = Logical nat | Physical nat | Syndrome nat | SynX nat | SynZ nat

datatype clbit = SyndromeBits nat | PhysicalBits nat | CSynX nat | CSynZ nat | CPhys nat

datatype gate =
    XGate qubit
  | YGate qubit
  | ZGate qubit
  | HGate qubit
  | CXGate qubit qubit
  | Barrier
  | Measure qubit clbit

text \<open>
  Indexing a register of \<open>n\<close> qubits with a Python integer: the register keeps its qubits
  in a list, so a negative index counts from the end and an index outside the list raises
  \<^verbatim>\<open>IndexError\<close>.
\<close>

definition reg_index :: "nat \<Rightarrow> int \<Rightarrow> error + nat" where
  "reg_index n i =
     (let j = (if i < 0 then int n + i else i)
      in if 0 \<le> j \<and> j < int n then Inr (nat j) else Inl IndexError)"


section \<open>Three-qubit bit-flip code: \<^verbatim>\<open>qec_codes.py\<close>\<close>

definition create_bitflip_code :: "int \<Rightarrow> bool \<Rightarrow> int \<Rightarrow> error + gate list" where
  "create_bitflip_code input_value apply_error error_qubit =
     (let qc = (if input_value = 1 then [XGate (Logical 0)] else []);
          qc = qc @ [Barrier];
          qc = qc @ [CXGate (Logical 0) (Physical 0),
                     CXGate (Logical 0) (Physical 1),
                     CXGate (Logical 0) (Physical 2)];
          qc = qc @ [Barrier]
      in case (if apply_error then
                 (case reg_index 3 error_qubit of
                    Inl e \<Rightarrow> Inl e
                  | Inr q \<Rightarrow> Inr (qc @ [XGate (Physical q), Barrier]))
               else Inr qc) of
           Inl e \<Rightarrow> Inl e
         | Inr qc \<Rightarrow>
             (let qc = qc @ [CXGate (Physical 0) (Syndrome 0),
                             CXGate (Physical 1) (Syndrome 0)];
                  qc = qc @ [CXGate (Physical 1) (Syndrome 1),
                             CXGate (Physical 2) (Syndrome 1)];
                  qc = qc @ [Barrier];
                  qc = qc @ [Measure (Syndrome 0) (SyndromeBits 0),
                             Measure (Syndrome 1) (SyndromeBits 1)];
                  qc = qc @ [Measure (Physical 0) (PhysicalBits 0),
                             Measure (Physical 1) (PhysicalBits 1),
                             Measure (Physical 2) (PhysicalBits 2)]
              in Inr qc))"

text \<open>
  Without noise, a circuit made of X, controlled-X and measurements only, started with
  every qubit in state 0, keeps every qubit in a definite state 0 or 1, so each run gives
  the same outcome. On such states the gates act as the comments of
  \<^verbatim>\<open>create_bitflip_code\<close> say: X flips its qubit, and a controlled-X flips its target when
  its control is 1. A measurement copies the qubit into its classical bit. The other
  gates leave this fragment, and \<open>run\<close> gives no outcome for them.
\<close>

type_synonym outcome = "(qubit \<Rightarrow> bool) \<times> (clbit \<Rightarrow> bool)"

fun apply_gate :: "gate \<Rightarrow> outcome \<Rightarrow> outcome option" where
  "apply_gate (XGate q) (qs, cs) = Some (qs(q := \<not> qs q), cs)"
| "apply_gate (CXGate c t) (qs, cs) = Some (qs(t := (qs t \<noteq> qs c)), cs)"
| "apply_gate Barrier (qs, cs) = Some (qs, cs)"
| "apply_gate (Measure q b) (qs, cs) = Some (qs, cs(b := qs q))"
| "apply_gate (YGate q) (qs, cs) = None"
| "apply_gate (ZGate q) (qs, cs) = None"
| "apply_gate (HGate q) (qs, cs) = None"

fun run :: "gate list \<Rightarrow> outcome \<Rightarrow> outcome option" where
  "run [] st = Some st"
| "run (g # gs) st = (case apply_gate g st of None \<Rightarrow> None | Some st' \<Rightarrow> run gs st')"

definition run_circuit :: "gate list \<Rightarrow> (clbit \<Rightarrow> bool) option" where
  "run_circuit qc = map_option snd (run qc (\<lambda>q. False, \<lambda>b. False))"

definition bit_char :: "bool \<Rightarrow> char" where
  "bit_char b = (if b then CHR ''1'' else CHR ''0'')"

text \<open>
  \<^verbatim>\<open>str.split()\<close> without arguments: the maximal runs of characters that are not white
  space. A character is its code point, below 256; the white space there is the
  characters 9 to 13, 28 to 32 (32 is the blank), 133 and 160.
\<close>

definition isspace :: "char \<Rightarrow> bool" where
  "isspace c = (c \<in> set [CHR 0x09, CHR 0x0A, CHR 0x0B, CHR 0x0C, CHR 0x0D,
                          CHR 0x1C, CHR 0x1D, CHR 0x1E, CHR 0x1F, CHR 0x20,
                          CHR 0x85, CHR 0xA0])"

fun split_from :: "string \<Rightarrow> string \<Rightarrow> string list" where
  "split_from cur [] = (if cur = [] then [] else [cur])"
| "split_from cur (c # cs) =
     (if isspace c then (if cur = [] then split_from [] cs else cur # split_from [] cs)
      else split_from (cur @ [c]) cs)"

definition str_split :: "string \<Rightarrow> string list" where
  "str_split s = split_from [] s"

text \<open>The part of a key that \<^verbatim>\<open>analyze_results\<close> reads as the physical bits.\<close>

definition physical_bits_of :: "string \<Rightarrow> string" where
  "physical_bits_of bitstring =
     (let parts = str_split bitstring
      in if length parts = 2 then parts ! 1
         else drop (length bitstring - 3) bitstring)"

definition majority_vote :: "string \<Rightarrow> int" where
  "majority_vote physical_bits =
     (let zeros = count_list physical_bits CHR ''0'';
          ones = count_list physical_bits CHR ''1''
      in if ones > zeros then 1 else 0)"

text \<open>
  \<^verbatim>\<open>analyze_results\<close>: \<open>counts\<close> is the list of the items of the dictionary
  \<^verbatim>\<open>results['counts']\<close>, one per key. The loop visits them sorted, as pairs, and carries
  \<open>success\<close> and \<open>failure\<close>. Each iteration also divides the count by the total of all
  counts for the line it prints, which raises \<^verbatim>\<open>ZeroDivisionError\<close> when that total is
  zero. The function returns \<^verbatim>\<open>success / (success + failure) * 100\<close> as a float (0 when
  the total is 0); the model returns the two tallies this is computed from.
\<close>

fun analyze_loop ::
    "int \<Rightarrow> int \<Rightarrow> (string \<times> int) list \<Rightarrow> int \<times> int \<Rightarrow> error + (int \<times> int)" where
  "analyze_loop total_counts input_value [] (success, failure) = Inr (success, failure)"
| "analyze_loop total_counts input_value ((bitstring, cnt) # rest) (success, failure) =
     (let physical_bits = physical_bits_of bitstring;
          result = majority_vote physical_bits;
          (success, failure) =
            (if result = input_value then (success + cnt, failure)
             else (success, failure + cnt))
      in if total_counts = 0 then Inl ZeroDivisionError
         else analyze_loop total_counts input_value rest (success, failure))"

definition analyze_results :: "(string \<times> int) list \<Rightarrow> int \<Rightarrow> error + (int \<times> int)" where
  "analyze_results counts input_value =
     analyze_loop (sum_list (map snd counts)) input_value (sort counts) (0, 0)"

text \<open>
  The pointwise sum of two dictionaries of counts, as the loop
  \<^verbatim>\<open>for k, v in c2.items(): c1[k] = c1.get(k, 0) + v\<close> builds it. This is the notion
  the aggregation property is stated with; it is not a function of the program.
\<close>

fun counts_get :: "(string \<times> int) list \<Rightarrow> string \<Rightarrow> int" where
  "counts_get [] key = 0"
| "counts_get ((k, v) # rest) key = (if k = key then v else counts_get rest key)"

fun counts_add :: "string \<Rightarrow> int \<Rightarrow> (string \<times> int) list \<Rightarrow> (string \<times> int) list" where
  "counts_add key n [] = [(key, n)]"
| "counts_add key n ((k, v) # rest) =
     (if k = key then (k, v + n) # rest else (k, v) # counts_add key n rest)"

definition counts_sum :: "(string \<times> int) list \<Rightarrow> (string \<times> int) list \<Rightarrow> (string \<times> int) list" where
  "counts_sum c1 c2 = fold (\<lambda>(k, v) acc. counts_add k v acc) c2 c1"


section \<open>Five-qubit code analysis: \<^verbatim>\<open>five_qubit_code.py\<close>\<close>

text \<open>
  The two parts \<^verbatim>\<open>(physical_bits, syndrome_bits)\<close> that \<^verbatim>\<open>analyze_five_qubit_results\<close>
  reads from a key: the two words of the key when it has exactly two, otherwise
  characters 0 to 4 and 5 to 8 of the key without its blanks.
\<close>

definition parse_measurement :: "string \<Rightarrow> string \<times> string" where
  "parse_measurement measurement =
     (let bits = str_split measurement
      in if length bits = 2 then (bits ! 0, bits ! 1)
         else (let full_measurement = filter (\<lambda>c. c \<noteq> CHR '' '') measurement
               in (take 5 full_measurement, take 4 (drop 5 full_measurement))))"

text \<open>
  \<^verbatim>\<open>syndrome_stats\<close> is a dictionary from syndrome bits to a count and the decoded error,
  kept as the list of its items in insertion order.
\<close>

type_synonym syndrome_stats = "(string \<times> int \<times> correction) list"

fun stats_add :: "string \<Rightarrow> correction \<Rightarrow> int \<Rightarrow> syndrome_stats \<Rightarrow> syndrome_stats" where
  "stats_add key err n [] = [(key, 0 + n, err)]"
| "stats_add key err n ((k, c, e) # rest) =
     (if k = key then (k, c + n, e) # rest else (k, c, e) # stats_add key err n rest)"

fun five_qubit_loop ::
    "(string \<times> int) list \<Rightarrow> int \<times> syndrome_stats \<Rightarrow> int \<times> syndrome_stats" where
  "five_qubit_loop [] (successful, stats) = (successful, stats)"
| "five_qubit_loop ((measurement, cnt) # rest) (successful, stats) =
     (let (physical_bits, syndrome_bits) = parse_measurement measurement;
          err = decode_five_qubit_syndrome syndrome_bits;
          stats = stats_add syndrome_bits err cnt stats;
          successful = (if syndrome_bits = ''0000'' then successful + cnt else successful)
      in five_qubit_loop rest (successful, stats))"

record five_qubit_report =
  successful :: int
  total_shots :: int
  stats :: syndrome_stats

text \<open>
  \<open>counts\<close> is the list of the items of the dictionary of counts, in its order. The loop
  visits them by decreasing count, items of equal count in their order (the sort is
  stable). The percentages printed afterwards and the returned rate
  \<^verbatim>\<open>successful / total_shots * 100\<close> divide by \<open>total_shots\<close>, which raises
  \<^verbatim>\<open>ZeroDivisionError\<close> when it is zero. The rate is a float; the model returns the tallies
  it is computed from. \<open>input_value\<close> is printed only.
\<close>

definition analyze_five_qubit_results ::
    "(string \<times> int) list \<Rightarrow> int \<Rightarrow> error + five_qubit_report" where
  "analyze_five_qubit_results counts input_value =
     (let total = sum_list (map snd counts);
          (successful, stats) =
             five_qubit_loop (sort_key (\<lambda>(measurement, cnt). - cnt) counts) (0, [])
      in if total = 0 then Inl ZeroDivisionError
         else Inr \<lparr>successful = successful, total_shots = total, stats = stats\<rparr>)"


section \<open>Steane code circuit: \<^verbatim>\<open>steane_code.py\<close>\<close>

definition create_steane_code :: "int \<Rightarrow> bool \<Rightarrow> int \<Rightarrow> string \<Rightarrow> error + gate list" where
  "create_steane_code input_value apply_error error_qubit error_type =
     (let qc = (if input_value = 1 then [XGate (Physical 0)] else []);
          qc = qc @ [HGate (Physical 0), HGate (Physical 2),
                     HGate (Physical 4), HGate (Physical 6)];
          qc = qc @ [CXGate (Physical 0) (Physical 1),
                     CXGate (Physical 2) (Physical 1),
                     CXGate (Physical 2) (Physical 3),
                     CXGate (Physical 4) (Physical 3),
                     CXGate (Physical 4) (Physical 5),
                     CXGate (Physical 6) (Physical 5),
                     CXGate (Physical 0) (Physical 6),
                     CXGate (Physical 2) (Physical 6),
                     CXGate (Physical 4) (Physical 6)];
          qc = qc @ [Barrier]
      in case (if apply_error then
                 (if error_type = ''X'' then
                    (case reg_index 7 error_qubit of
                       Inl e \<Rightarrow> Inl e
                     | Inr q \<Rightarrow> Inr (qc @ [XGate (Physical q)] @ [Barrier]))
                  else if error_type = ''Z'' then
                    (case reg_index 7 error_qubit of
                       Inl e \<Rightarrow> Inl e
                     | Inr q \<Rightarrow> Inr (qc @ [ZGate (Physical q)] @ [Barrier]))
                  else if error_type = ''Y'' then
                    (case reg_index 7 error_qubit of
                       Inl e \<Rightarrow> Inl e
                     | Inr q \<Rightarrow> Inr (qc @ [YGate (Physical q)] @ [Barrier]))
                  else Inr (qc @ [Barrier]))
               else Inr qc) of
           Inl e \<Rightarrow> Inl e
         | Inr qc \<Rightarrow>
             (let qc = qc @ [HGate (SynX 0),
                             CXGate (SynX 0) (Physical 0),
                             CXGate (SynX 0) (Physical 1),
                             CXGate (SynX 0) (Physical 2),
                             CXGate (SynX 0) (Physical 3),
                             HGate (SynX 0)];
                  qc = qc @ [HGate (SynX 1),
                             CXGate (SynX 1) (Physical 2),
                             CXGate (SynX 1) (Physical 3),
                             CXGate (SynX 1) (Physical 4),
                             CXGate (SynX 1) (Physical 5),
                             HGate (SynX 1)];
                  qc = qc @ [HGate (SynX 2),
                             CXGate (SynX 2) (Physical 4),
                             CXGate (SynX 2) (Physical 5),
                             CXGate (SynX 2) (Physical 6),
                             CXGate (SynX 2) (Physical 0),
                             HGate (SynX 2)];
                  qc = qc @ [Barrier];
                  qc = qc @ [CXGate (Physical 0) (SynZ 0),
                             CXGate (Physical 1) (SynZ 0),
                             CXGate (Physical 2) (SynZ 0),
                             CXGate (Physical 3) (SynZ 0)];
                  qc = qc @ [CXGate (Physical 2) (SynZ 1),
                             CXGate (Physical 3) (SynZ 1),
                             CXGate (Physical 4) (SynZ 1),
                             CXGate (Physical 5) (SynZ 1)];
                  qc = qc @ [CXGate (Physical 4) (SynZ 2),
                             CXGate (Physical 5) (SynZ 2),
                             CXGate (Physical 6) (SynZ 2),
                             CXGate (Physical 0) (SynZ 2)];
                  qc = qc @ [Barrier];
                  qc = qc @ [Measure (SynX 0) (CSynX 0),
                             Measure (SynX 1) (CSynX 1),
                             Measure (SynX 2) (CSynX 2)];
                  qc = qc @ [Measure (SynZ 0) (CSynZ 0),
                             Measure (SynZ 1) (CSynZ 1),
                             Measure (SynZ 2) (CSynZ 2)];
                  qc = qc @ [Measure (Physical 0) (CPhys 0),
                             Measure (Physical 1) (CPhys 1),
                             Measure (Physical 2) (CPhys 2),
                             Measure (Physical 3) (CPhys 3),
                             Measure (Physical 4) (CPhys 4),
                             Measure (Physical 5) (CPhys 5),
                             Measure (Physical 6) (CPhys 6)]
              in Inr qc))"

text \<open>
  The qubits an operation acts on, and the stabilizer generators of the Steane code as
  the comments of \<^verbatim>\<open>create_steane_code\<close> list them: \<open>X\<^sub>0X\<^sub>1X\<^sub>2X\<^sub>3\<close>, \<open>X\<^sub>2X\<^sub>3X\<^sub>4X\<^sub>5\<close>, \<open>X\<^sub>4X\<^sub>5X\<^sub>6X\<^sub>0\<close>,
  and the same supports for the Z-type generators.
\<close>

fun gate_qubits :: "gate \<Rightarrow> qubit list" where
  "gate_qubits (XGate q) = [q]"
| "gate_qubits (YGate q) = [q]"
| "gate_qubits (ZGate q) = [q]"
| "gate_qubits (HGate q) = [q]"
| "gate_qubits (CXGate c t) = [c, t]"
| "gate_qubits Barrier = []"
| "gate_qubits (Measure q b) = [q]"

definition gates_on :: "qubit \<Rightarrow> gate list \<Rightarrow> gate list" where
  "gates_on q qc = filter (\<lambda>g. q \<in> set (gate_qubits g)) qc"

definition stabilizer_support :: "nat \<Rightarrow> nat list" where
  "stabilizer_support k =
     (if k = 0 then [0, 1, 2, 3] else if k = 1 then [2, 3, 4, 5] else [4, 5, 6, 0])"


text \<open>
  The contribution of one item to a tally of \<^verbatim>\<open>analyze_results\<close>: its count when the
  majority vote on its physical bits agrees with \<open>input_value\<close> (for \<open>success\<close>) or
  disagrees (for \<open>failure\<close>), and nothing otherwise.
\<close>

definition voted :: "int \<Rightarrow> bool \<Rightarrow> string \<times> int \<Rightarrow> int" where
  "voted input_value ok item =
     (if (majority_vote (physical_bits_of (fst item)) = input_value) = ok then snd item else 0)"


text \<open>
  The classical registers after one noiseless run of the bit-flip circuit, as
  \<^verbatim>\<open>run_qec_circuit\<close> obtains them from the simulator: the two syndrome bits and the three
  physical bits, each in the order of its register. There is no readout when the circuit
  cannot be built.
\<close>

definition bitflip_readout :: "int \<Rightarrow> bool \<Rightarrow> int \<Rightarrow> (bool list \<times> bool list) option" where
  "bitflip_readout input_value apply_error error_qubit =
     (case create_bitflip_code input_value apply_error error_qubit of
        Inl e \<Rightarrow> None
      | Inr qc \<Rightarrow>
          (case run_circuit qc of
             None \<Rightarrow> None
           | Some cs \<Rightarrow>
               Some ([cs (SyndromeBits 0), cs (SyndromeBits 1)],
                     [cs (PhysicalBits 0), cs (PhysicalBits 1), cs (PhysicalBits 2)])))"


text \<open>
  The key under which the simulator counts a readout. It has one word per classical
  register, the register added last first: for the registers of the five-qubit circuit,
  added in the same order as here (syndrome, then physical), \<^verbatim>\<open>five_qubit_code.py\<close> gives
  the format as \<^verbatim>\<open>c_phys c_syn\<close>, and the analyses of \<^verbatim>\<open>shors_9qubit_code.py\<close> and
  \<^verbatim>\<open>phase_flip_code_not_working.py\<close> read the physical bits from the first word. A word
  shows the bits of its register from the highest index down.
\<close>

definition register_word :: "bool list \<Rightarrow> string" where
  "register_word bits = map bit_char (rev bits)"

definition bitflip_key :: "bool list \<times> bool list \<Rightarrow> string" where
  "bitflip_key readout =
     (case readout of (syndrome_bits, physical_bits) \<Rightarrow>
        register_word physical_bits @ '' '' @ register_word syndrome_bits)"

text \<open>
  The counts \<^verbatim>\<open>run_qec_circuit\<close> gets for \<open>shots\<close> noiseless runs: every run gives the same
  readout, so the dictionary has its key alone, with all the shots.
\<close>

definition run_qec_circuit :: "int \<Rightarrow> bool \<Rightarrow> int \<Rightarrow> int \<Rightarrow> (string \<times> int) list option" where
  "run_qec_circuit input_value apply_error error_qubit shots =
     map_option (\<lambda>readout. [(bitflip_key readout, shots)])
       (bitflip_readout input_value apply_error error_qubit)"


section \<open>Properties of dictionary literals\<close>

lemma fold_store_append:
  "fold (\<lambda>(k, v) m. m(k \<mapsto> v)) entries m0 = m0 ++ map_of (rev entries)"
proof (induction entries arbitrary: m0)
  case Nil
  show ?case by simp
next
  case (Cons e entries)
  obtain k v where e: "e = (k, v)" by (cases e)
  have step: "(case e of (k, v) \<Rightarrow> \<lambda>m. m(k \<mapsto> v)) m0 = m0(k \<mapsto> v)"
    by (simp add: e)
  have "fold (\<lambda>(k, v) m. m(k \<mapsto> v)) (e # entries) m0
        = (m0(k \<mapsto> v)) ++ map_of (rev entries)"
    unfolding fold_Cons comp_def step by (rule Cons.IH)
  also have "\<dots> = m0 ++ map_of (rev (e # entries))"
    by (rule ext) (simp add: e map_add_def split: option.splits)
  finally show ?case .
qed

lemma dict_literal_map_of: "dict_literal entries = map_of (rev entries)"
  by (simp add: dict_literal_def fold_store_append)

lemma dict_literal_absent:
  "key \<notin> fst ` set entries \<Longrightarrow> dict_literal entries key = None"
  by (simp add: dict_literal_map_of map_of_eq_None_iff)

lemma dict_literal_last_wins:
  assumes "key \<notin> fst ` set post"
  shows "dict_literal (pre @ (key, v) # post) key = Some v"
proof -
  have "map_of (rev post) key = None"
    using assms by (simp add: map_of_eq_None_iff)
  then show ?thesis
    by (simp add: dict_literal_map_of map_add_def)
qed

lemma syndrome_table_keys:
  "fst ` set syndrome_table_entries =
     {''0000'', ''1011'', ''0111'', ''1101'', ''1110'', ''0110'', ''0101'', ''1010'',
      ''0011'', ''1100'', ''1001'', ''0010'', ''1111''}"
  by (auto simp: syndrome_table_entries_def)

lemma syndrome_table_lookup:
  "syndrome_table =
     [''0000'' \<mapsto> (None, None),
      ''1011'' \<mapsto> (Some 0, Some ''X''),
      ''0111'' \<mapsto> (Some 1, Some ''X''),
      ''0110'' \<mapsto> (Some 4, Some ''X''),
      ''0101'' \<mapsto> (Some 0, Some ''Z''),
      ''1010'' \<mapsto> (Some 1, Some ''Z''),
      ''0011'' \<mapsto> (Some 2, Some ''Z''),
      ''1100'' \<mapsto> (Some 3, Some ''Z''),
      ''1001'' \<mapsto> (Some 4, Some ''Z''),
      ''1101'' \<mapsto> (Some 1, Some ''Y''),
      ''1110'' \<mapsto> (Some 2, Some ''Y''),
      ''0010'' \<mapsto> (Some 3, Some ''Y''),
      ''1111'' \<mapsto> (Some 4, Some ''Y'')]"
  by (rule ext) (simp add: syndrome_table_def dict_literal_def syndrome_table_entries_def)

section \<open>The five-qubit syndrome table\<close>

text \<open>
  Claim C1. The table literal of \<^verbatim>\<open>decode_five_qubit_syndrome\<close> lists several corrections
  under one key: \<^verbatim>\<open>'1110'\<close> for \<^verbatim>\<open>(3, 'X')\<close>, \<^verbatim>\<open>(0, 'Y')\<close> and \<^verbatim>\<open>(2, 'Y')\<close>, and \<^verbatim>\<open>'1101'\<close>
  for \<^verbatim>\<open>(2, 'X')\<close> and \<^verbatim>\<open>(1, 'Y')\<close>. The decoder returns one of them only, the one listed
  last: for every entry of the literal whose key is not listed again after it, decoding
  the key returns the value of that entry.
\<close>

theorem five_qubit_table_duplicate_keys:
  "(''1110'', (Some 3, Some ''X'')) \<in> set syndrome_table_entries \<and>
   (''1110'', (Some 0, Some ''Y'')) \<in> set syndrome_table_entries \<and>
   (''1110'', (Some 2, Some ''Y'')) \<in> set syndrome_table_entries \<and>
   (''1101'', (Some 2, Some ''X'')) \<in> set syndrome_table_entries \<and>
   (''1101'', (Some 1, Some ''Y'')) \<in> set syndrome_table_entries \<and>
   decode_five_qubit_syndrome ''1110'' = (Some 2, Some ''Y'') \<and>
   decode_five_qubit_syndrome ''1101'' = (Some 1, Some ''Y'') \<and>
   (\<forall>pre key v post. syndrome_table_entries = pre @ (key, v) # post \<and> key \<notin> fst ` set post
       \<longrightarrow> decode_five_qubit_syndrome key = v)"
proof -
  have mem: "(''1110'', (Some 3, Some ''X'')) \<in> set syndrome_table_entries"
    "(''1110'', (Some 0, Some ''Y'')) \<in> set syndrome_table_entries"
    "(''1110'', (Some 2, Some ''Y'')) \<in> set syndrome_table_entries"
    "(''1101'', (Some 2, Some ''X'')) \<in> set syndrome_table_entries"
    "(''1101'', (Some 1, Some ''Y'')) \<in> set syndrome_table_entries"
    by (simp_all add: syndrome_table_entries_def)
  have dec: "decode_five_qubit_syndrome ''1110'' = (Some 2, Some ''Y'')"
    "decode_five_qubit_syndrome ''1101'' = (Some 1, Some ''Y'')"
    by (simp_all add: decode_five_qubit_syndrome_def dict_get_def syndrome_table_lookup)
  have last: "decode_five_qubit_syndrome key = v"
    if "syndrome_table_entries = pre @ (key, v) # post" "key \<notin> fst ` set post"
    for pre key v post
    using that dict_literal_last_wins [of key post pre v]
    by (simp add: decode_five_qubit_syndrome_def dict_get_def syndrome_table_def)
  from mem dec last show ?thesis by blast
qed

theorem five_qubit_table_duplicate_keys_witness:
  "syndrome_table_entries =
     take 13 syndrome_table_entries @ (''1110'', (Some 2, Some ''Y'')) # drop 14 syndrome_table_entries \<and>
   ''1110'' \<notin> fst ` set (drop 14 syndrome_table_entries) \<and>
   decode_five_qubit_syndrome ''1110'' = (Some 2, Some ''Y'')"
proof -
  have split: "syndrome_table_entries =
     take 13 syndrome_table_entries @ (''1110'', (Some 2, Some ''Y'')) # drop 14 syndrome_table_entries"
    by (simp add: syndrome_table_entries_def)
  have later: "''1110'' \<notin> fst ` set (drop 14 syndrome_table_entries)"
    by (simp add: syndrome_table_entries_def)
  have last: "\<forall>pre key v post.
         syndrome_table_entries = pre @ (key, v) # post \<and> key \<notin> fst ` set post \<longrightarrow>
         decode_five_qubit_syndrome key = v"
    using five_qubit_table_duplicate_keys by (elim conjE)
  have "decode_five_qubit_syndrome ''1110'' = (Some 2, Some ''Y'')"
    using last [rule_format, OF conjI, OF split later] .
  with split later show ?thesis by (intro conjI)
qed

text \<open>
  Claim C10. \<^verbatim>\<open>decode_five_qubit_syndrome\<close> returns a pair for every string: \<^verbatim>\<open>(None, None)\<close>
  exactly for \<^verbatim>\<open>'0000'\<close>, a qubit from 0 to 4 with an error type X, Y or Z for each of
  the 12 other keys of the table, and \<^verbatim>\<open>(None, 'Unknown')\<close> for every string that is not
  a key. The model is a function of the input string alone, so equal inputs give equal
  results.
\<close>

theorem decode_five_qubit_total:
  "(decode_five_qubit_syndrome s = (None, None) \<longleftrightarrow> s = ''0000'') \<and>
   (s \<in> {''1011'', ''0111'', ''1101'', ''1110'', ''0110'', ''0101'', ''1010'',
          ''0011'', ''1100'', ''1001'', ''0010'', ''1111''} \<longrightarrow>
      (\<exists>q t. decode_five_qubit_syndrome s = (Some q, Some t) \<and>
             q \<in> {0, 1, 2, 3, 4} \<and> t \<in> {''X'', ''Y'', ''Z''})) \<and>
   (s \<notin> fst ` set syndrome_table_entries \<longrightarrow>
      decode_five_qubit_syndrome s = (None, Some ''Unknown'')) \<and>
   fst ` set syndrome_table_entries - {''0000''} =
     {''1011'', ''0111'', ''1101'', ''1110'', ''0110'', ''0101'', ''1010'',
      ''0011'', ''1100'', ''1001'', ''0010'', ''1111''} \<and>
   card (fst ` set syndrome_table_entries - {''0000''}) = 12"
proof -
  have none: "decode_five_qubit_syndrome s = (None, None) \<longleftrightarrow> s = ''0000''"
    by (simp add: decode_five_qubit_syndrome_def dict_get_def syndrome_table_lookup)
  have some: "\<exists>q t. decode_five_qubit_syndrome s = (Some q, Some t) \<and>
             q \<in> {0, 1, 2, 3, 4} \<and> t \<in> {''X'', ''Y'', ''Z''}"
    if "s \<in> {''1011'', ''0111'', ''1101'', ''1110'', ''0110'', ''0101'', ''1010'',
          ''0011'', ''1100'', ''1001'', ''0010'', ''1111''}"
    using that
    by (auto simp add: decode_five_qubit_syndrome_def dict_get_def syndrome_table_lookup)
  have unknown: "decode_five_qubit_syndrome s = (None, Some ''Unknown'')"
    if "s \<notin> fst ` set syndrome_table_entries"
    using dict_literal_absent [OF that]
    by (simp add: decode_five_qubit_syndrome_def dict_get_def syndrome_table_def)
  have keys: "fst ` set syndrome_table_entries - {''0000''} =
     {''1011'', ''0111'', ''1101'', ''1110'', ''0110'', ''0101'', ''1010'',
      ''0011'', ''1100'', ''1001'', ''0010'', ''1111''}"
    unfolding syndrome_table_keys by auto
  have card: "card (fst ` set syndrome_table_entries - {''0000''}) = 12"
    unfolding keys by simp
  from none some unknown keys card show ?thesis by blast
qed

theorem decode_five_qubit_total_witness:
  "''1100'' \<in> {''1011'', ''0111'', ''1101'', ''1110'', ''0110'', ''0101'', ''1010'',
          ''0011'', ''1100'', ''1001'', ''0010'', ''1111''} \<and>
   (\<exists>q t. decode_five_qubit_syndrome ''1100'' = (Some q, Some t) \<and>
             q \<in> {0, 1, 2, 3, 4} \<and> t \<in> {''X'', ''Y'', ''Z''}) \<and>
   ''1000'' \<notin> fst ` set syndrome_table_entries \<and>
   decode_five_qubit_syndrome ''1000'' = (None, Some ''Unknown'') \<and>
   decode_five_qubit_syndrome ''0000'' = (None, None)"
proof -
  have a: "''1100'' \<in> {''1011'', ''0111'', ''1101'', ''1110'', ''0110'', ''0101'', ''1010'',
          ''0011'', ''1100'', ''1001'', ''0010'', ''1111''}" by simp
  have b: "''1000'' \<notin> fst ` set syndrome_table_entries"
    by (simp add: syndrome_table_entries_def)
  note t1 = decode_five_qubit_total [of "''1100''"]
  note t2 = decode_five_qubit_total [of "''1000''"]
  note t3 = decode_five_qubit_total [of "''0000''"]
  have c: "\<exists>q t. decode_five_qubit_syndrome ''1100'' = (Some q, Some t) \<and>
             q \<in> {0, 1, 2, 3, 4} \<and> t \<in> {''X'', ''Y'', ''Z''}"
    using t1 [THEN conjunct2, THEN conjunct1, rule_format, OF a] .
  have d: "decode_five_qubit_syndrome ''1000'' = (None, Some ''Unknown'')"
    using t2 [THEN conjunct2, THEN conjunct2, THEN conjunct1, rule_format, OF b] .
  have e: "decode_five_qubit_syndrome ''0000'' = (None, None)"
    using t3 [THEN conjunct1, THEN iffD2, OF refl] .
  from a c b d e show ?thesis by (intro conjI)
qed

section \<open>The Steane decoder\<close>

lemma x_syndrome_table_lookup:
  "x_syndrome_table =
     [''000'' \<mapsto> None, ''111'' \<mapsto> Some 0, ''110'' \<mapsto> Some 1, ''101'' \<mapsto> Some 2,
      ''011'' \<mapsto> Some 3, ''010'' \<mapsto> Some 4, ''001'' \<mapsto> Some 5, ''100'' \<mapsto> Some 6]"
  by (rule ext) (simp add: x_syndrome_table_def dict_literal_def x_syndrome_table_entries_def)

lemma z_syndrome_table_lookup:
  "z_syndrome_table =
     [''000'' \<mapsto> None, ''111'' \<mapsto> Some 0, ''110'' \<mapsto> Some 1, ''101'' \<mapsto> Some 2,
      ''011'' \<mapsto> Some 3, ''010'' \<mapsto> Some 4, ''001'' \<mapsto> Some 5, ''100'' \<mapsto> Some 6]"
  by (rule ext) (simp add: z_syndrome_table_def dict_literal_def z_syndrome_table_entries_def)

text \<open>
  Claim C2, as stated, fails. An X-syndrome whose entry is qubit 3 with a Z-syndrome
  whose entry is qubit 5 does not decode to the two corrections: the decoder returns the
  single pair \<^verbatim>\<open>(None, 'Unknown')\<close>.
\<close>

theorem steane_different_qubits_counterexample:
  "dict_get x_syndrome_table ''011'' None = Some 3 \<and>
   dict_get z_syndrome_table ''001'' None = Some 5 \<and>
   decode_steane_syndrome ''011'' ''001'' = (None, Some ''Unknown'')"
  by (simp add: decode_steane_syndrome_def dict_get_def
        x_syndrome_table_lookup z_syndrome_table_lookup)

text \<open>
  Claim C2, amended. \<^verbatim>\<open>decode_steane_syndrome\<close> looks each syndrome up in its own table
  and returns a single pair. It returns \<^verbatim>\<open>(None, 'Unknown')\<close>, naming neither qubit, exactly
  when the X-syndrome identifies a qubit and the Z-syndrome identifies a different one.
  It returns a qubit with type Y exactly when both syndromes identify that qubit, with
  type X exactly when the X-syndrome identifies it and the Z-syndrome identifies none,
  with type Z exactly when the Z-syndrome identifies it and the X-syndrome identifies
  none, and \<^verbatim>\<open>(None, None)\<close> exactly when neither identifies a qubit.
\<close>

theorem steane_decode_cases:
  "(decode_steane_syndrome syndrome_x syndrome_z = (None, Some ''Unknown'') \<longleftrightarrow>
      (\<exists>a b. dict_get x_syndrome_table syndrome_x None = Some a \<and>
             dict_get z_syndrome_table syndrome_z None = Some b \<and> a \<noteq> b)) \<and>
   (decode_steane_syndrome syndrome_x syndrome_z = (Some q, Some ''Y'') \<longleftrightarrow>
      dict_get x_syndrome_table syndrome_x None = Some q \<and>
      dict_get z_syndrome_table syndrome_z None = Some q) \<and>
   (decode_steane_syndrome syndrome_x syndrome_z = (Some q, Some ''X'') \<longleftrightarrow>
      dict_get x_syndrome_table syndrome_x None = Some q \<and>
      dict_get z_syndrome_table syndrome_z None = None) \<and>
   (decode_steane_syndrome syndrome_x syndrome_z = (Some q, Some ''Z'') \<longleftrightarrow>
      dict_get x_syndrome_table syndrome_x None = None \<and>
      dict_get z_syndrome_table syndrome_z None = Some q) \<and>
   (decode_steane_syndrome syndrome_x syndrome_z = (None, None) \<longleftrightarrow>
      dict_get x_syndrome_table syndrome_x None = None \<and>
      dict_get z_syndrome_table syndrome_z None = None)"
proof (cases "dict_get x_syndrome_table syndrome_x None")
  case None
  then show ?thesis
    by (cases "dict_get z_syndrome_table syndrome_z None")
       (simp_all add: decode_steane_syndrome_def Let_def)
next
  case (Some a)
  then show ?thesis
    by (cases "dict_get z_syndrome_table syndrome_z None")
       (auto simp add: decode_steane_syndrome_def Let_def)
qed

theorem steane_decode_cases_witness:
  "dict_get x_syndrome_table ''011'' None = Some 3 \<and>
   dict_get z_syndrome_table ''001'' None = Some 5 \<and> (3::int) \<noteq> 5 \<and>
   decode_steane_syndrome ''011'' ''001'' = (None, Some ''Unknown'') \<and>
   dict_get z_syndrome_table ''011'' None = Some 3 \<and>
   decode_steane_syndrome ''011'' ''011'' = (Some 3, Some ''Y'') \<and>
   dict_get z_syndrome_table ''000'' None = None \<and>
   decode_steane_syndrome ''011'' ''000'' = (Some 3, Some ''X'') \<and>
   dict_get x_syndrome_table ''000'' None = None \<and>
   decode_steane_syndrome ''000'' ''001'' = (Some 5, Some ''Z'') \<and>
   decode_steane_syndrome ''000'' ''000'' = (None, None)"
proof -
  have x3: "dict_get x_syndrome_table ''011'' None = Some 3"
    and x0: "dict_get x_syndrome_table ''000'' None = None"
    by (simp_all add: dict_get_def x_syndrome_table_lookup)
  have z5: "dict_get z_syndrome_table ''001'' None = Some 5"
    and z3: "dict_get z_syndrome_table ''011'' None = Some 3"
    and z0: "dict_get z_syndrome_table ''000'' None = None"
    by (simp_all add: dict_get_def z_syndrome_table_lookup)
  have ne: "(3::int) \<noteq> 5" by simp
  have "\<exists>a b. dict_get x_syndrome_table ''011'' None = Some a \<and>
             dict_get z_syndrome_table ''001'' None = Some b \<and> a \<noteq> b"
    using x3 z5 ne by (intro exI conjI)
  then have u: "decode_steane_syndrome ''011'' ''001'' = (None, Some ''Unknown'')"
    by (rule steane_decode_cases [of "''011''" "''001''" 3, THEN conjunct1, THEN iffD2])
  have y: "decode_steane_syndrome ''011'' ''011'' = (Some 3, Some ''Y'')"
    by (rule steane_decode_cases [of "''011''" "''011''" 3,
          THEN conjunct2, THEN conjunct1, THEN iffD2, OF conjI, OF x3 z3])
  have x: "decode_steane_syndrome ''011'' ''000'' = (Some 3, Some ''X'')"
    by (rule steane_decode_cases [of "''011''" "''000''" 3,
          THEN conjunct2, THEN conjunct2, THEN conjunct1, THEN iffD2, OF conjI, OF x3 z0])
  have z: "decode_steane_syndrome ''000'' ''001'' = (Some 5, Some ''Z'')"
    by (rule steane_decode_cases [of "''000''" "''001''" 5,
          THEN conjunct2, THEN conjunct2, THEN conjunct2, THEN conjunct1, THEN iffD2,
          OF conjI, OF x0 z5])
  have n: "decode_steane_syndrome ''000'' ''000'' = (None, None)"
    by (rule steane_decode_cases [of "''000''" "''000''" 0,
          THEN conjunct2, THEN conjunct2, THEN conjunct2, THEN conjunct2, THEN iffD2,
          OF conjI, OF x0 z0])
  from x3 z5 ne u z3 y z0 x x0 z n show ?thesis by (intro conjI)
qed


section \<open>The surface-code decoder\<close>

text \<open>
  Claim C4. \<^verbatim>\<open>decode_surface_syndrome\<close> puts every pair of syndrome strings in exactly one
  of four cases: \<^verbatim>\<open>(None, None)\<close> if and only if both syndromes are \<^verbatim>\<open>'0000'\<close>; the X-error
  report exactly when only the Z-syndrome is not \<^verbatim>\<open>'0000'\<close>; the Z-error report exactly
  when only the X-syndrome is not \<^verbatim>\<open>'0000'\<close>; and the category
  \<^verbatim>\<open>'Y-error or multiple errors'\<close> exactly when neither is \<^verbatim>\<open>'0000'\<close>. The result never
  names a qubit, and the final \<^verbatim>\<open>'Unknown'\<close> return is never reached.
\<close>

theorem decode_surface_cases:
  "(decode_surface_syndrome syndrome_x syndrome_z = (None, None) \<longleftrightarrow>
      syndrome_x = ''0000'' \<and> syndrome_z = ''0000'') \<and>
   (decode_surface_syndrome syndrome_x syndrome_z = (Some ''X-error detected'', Some ''X'') \<longleftrightarrow>
      syndrome_x = ''0000'' \<and> syndrome_z \<noteq> ''0000'') \<and>
   (decode_surface_syndrome syndrome_x syndrome_z = (Some ''Z-error detected'', Some ''Z'') \<longleftrightarrow>
      syndrome_x \<noteq> ''0000'' \<and> syndrome_z = ''0000'') \<and>
   (decode_surface_syndrome syndrome_x syndrome_z =
      (Some ''Y-error or multiple errors'', Some ''Y'') \<longleftrightarrow>
      syndrome_x \<noteq> ''0000'' \<and> syndrome_z \<noteq> ''0000'') \<and>
   decode_surface_syndrome syndrome_x syndrome_z \<noteq> (Some ''Unknown'', Some ''Unknown'')"
  by (simp add: decode_surface_syndrome_def)

theorem decode_surface_cases_witness:
  "decode_surface_syndrome ''0000'' ''0000'' = (None, None) \<and>
   ''0000'' = ''0000'' \<and> ''0100'' \<noteq> ''0000'' \<and> ''0011'' \<noteq> ''0000'' \<and>
   decode_surface_syndrome ''0000'' ''0100'' = (Some ''X-error detected'', Some ''X'') \<and>
   decode_surface_syndrome ''0011'' ''0000'' = (Some ''Z-error detected'', Some ''Z'') \<and>
   decode_surface_syndrome ''0011'' ''0100'' = (Some ''Y-error or multiple errors'', Some ''Y'')"
  using decode_surface_cases [of "''0000''" "''0000''"]
    decode_surface_cases [of "''0000''" "''0100''"]
    decode_surface_cases [of "''0011''" "''0000''"]
    decode_surface_cases [of "''0011''" "''0100''"]
  by simp


section \<open>The error channels\<close>




section \<open>The five-qubit success tally\<close>

lemma five_qubit_loop_successful:
  "fst (five_qubit_loop items (s, st)) =
     s + sum_list (map (\<lambda>(m, c). if snd (parse_measurement m) = ''0000'' then c else 0) items)"
proof (induction items arbitrary: s st)
  case Nil
  show ?case by simp
next
  case (Cons item items)
  obtain m c where item: "item = (m, c)" by (cases item)
  obtain pb sb where pm: "parse_measurement m = (pb, sb)" by (cases "parse_measurement m")
  show ?case
    by (simp add: item pm Cons.IH Let_def)
qed

lemma sum_list_sort_key:
  fixes f :: "'b \<Rightarrow> int"
  shows "sum_list (map f (sort_key k xs)) = sum_list (map f xs)"
proof -
  have "mset (map f (sort_key k xs)) = mset (map f xs)"
    by simp
  then have "sum_mset (mset (map f (sort_key k xs))) = sum_mset (mset (map f xs))"
    by (rule arg_cong)
  then show ?thesis
    by (simp only: sum_mset_sum_list)
qed

lemma parse_examples:
  "parse_measurement ''00000 0000'' = (''00000'', ''0000'')"
  "parse_measurement ''11111 0000'' = (''11111'', ''0000'')"
  "parse_measurement ''00100 0011'' = (''00100'', ''0011'')"
  "parse_measurement ''000000011'' = (''00000'', ''0011'')"
  by (simp_all add: parse_measurement_def str_split_def isspace_def)

text \<open>
  Claim C7. \<^verbatim>\<open>analyze_five_qubit_results\<close> counts the shots of a key as successful if and
  only if the syndrome bits read from the key are \<^verbatim>\<open>'0000'\<close>: whenever the total of the
  counts is not zero it returns, and \<open>successful\<close> is the sum of the counts of the keys
  with syndrome \<^verbatim>\<open>'0000'\<close> (with a zero total the rate divides by zero). The result does
  not depend on \<open>input_value\<close>, and the success tally does not depend on the physical
  bits: two dictionaries with the same syndrome bits and counts, item by item, have the
  same tally whatever their physical bits and expected inputs are.
\<close>

theorem five_qubit_success_is_zero_syndrome:
  "(sum_list (map snd counts) \<noteq> 0 \<longrightarrow>
      (\<exists>report. analyze_five_qubit_results counts input_value = Inr report \<and>
         successful report =
           sum_list (map (\<lambda>(measurement, cnt).
             if snd (parse_measurement measurement) = ''0000'' then cnt else 0) counts))) \<and>
   (sum_list (map snd counts) = 0 \<longrightarrow>
      analyze_five_qubit_results counts input_value = Inl ZeroDivisionError) \<and>
   analyze_five_qubit_results counts input_value =
     analyze_five_qubit_results counts other_input_value \<and>
   (map (\<lambda>(measurement, cnt). (snd (parse_measurement measurement), cnt)) counts =
    map (\<lambda>(measurement, cnt). (snd (parse_measurement measurement), cnt)) other_counts \<longrightarrow>
      map_sum id successful (analyze_five_qubit_results counts input_value) =
      map_sum id successful (analyze_five_qubit_results other_counts other_input_value))"
proof -
  let ?zero = "\<lambda>(measurement, cnt).
             if snd (parse_measurement measurement) = ''0000'' then cnt else (0::int)"
  let ?key = "\<lambda>(measurement, cnt). (snd (parse_measurement measurement), cnt :: int)"
  let ?sorted = "sort_key (\<lambda>(measurement, cnt). - cnt) counts"
  have tally: "fst (five_qubit_loop (sort_key (\<lambda>(measurement, cnt). - cnt) cs) (0, [])) =
      sum_list (map ?zero cs)" for cs
    by (simp add: five_qubit_loop_successful sum_list_sort_key)
  have ok: "\<exists>report. analyze_five_qubit_results cs iv = Inr report \<and>
         successful report = sum_list (map ?zero cs)"
    if "sum_list (map snd cs) \<noteq> 0" for cs iv
    using that tally [of cs]
    by (auto simp add: analyze_five_qubit_results_def Let_def split: prod.splits)
  have zero: "analyze_five_qubit_results cs iv = Inl ZeroDivisionError"
    if "sum_list (map snd cs) = 0" for cs iv
    using that by (simp add: analyze_five_qubit_results_def Let_def split: prod.splits)
  have input: "analyze_five_qubit_results counts input_value =
     analyze_five_qubit_results counts other_input_value"
    by (simp add: analyze_five_qubit_results_def)
  have data: "map_sum id successful (analyze_five_qubit_results counts input_value) =
      map_sum id successful (analyze_five_qubit_results other_counts other_input_value)"
    if eq: "map ?key counts = map ?key other_counts"
  proof -
    have "map snd (map ?key counts) = map snd (map ?key other_counts)"
      using eq by simp
    then have total: "sum_list (map snd counts) = sum_list (map snd other_counts)"
      by (simp add: case_prod_unfold comp_def)
    have z: "map ?zero cs = map (\<lambda>(s, c). if s = ''0000'' then c else 0) (map ?key cs)" for cs
      by (simp add: case_prod_unfold)
    have succ: "sum_list (map ?zero counts) = sum_list (map ?zero other_counts)"
      unfolding z eq ..
    show ?thesis
    proof (cases "sum_list (map snd counts) = 0")
      case True
      with total zero show ?thesis by simp
    next
      case False
      with total have "sum_list (map snd other_counts) \<noteq> 0" by simp
      from ok [OF False, of input_value] ok [OF this, of other_input_value] succ
      show ?thesis by auto
    qed
  qed
  from ok zero input data show ?thesis by blast
qed

theorem five_qubit_success_is_zero_syndrome_witness:
  "sum_list (map snd [(''00000 0000'', 600::int), (''00100 0011'', 424)]) \<noteq> (0::int) \<and>
   (\<exists>report. analyze_five_qubit_results [(''00000 0000'', 600::int), (''00100 0011'', 424)] 0 = Inr report \<and>
      successful report = 600) \<and>
   map (\<lambda>(measurement, cnt). (snd (parse_measurement measurement), cnt))
     [(''00000 0000'', 600::int), (''00100 0011'', 424)] =
   map (\<lambda>(measurement, cnt). (snd (parse_measurement measurement), cnt))
     [(''11111 0000'', 600::int), (''000000011'', 424)] \<and>
   map_sum id successful
     (analyze_five_qubit_results [(''00000 0000'', 600::int), (''00100 0011'', 424)] 0) =
   map_sum id successful
     (analyze_five_qubit_results [(''11111 0000'', 600::int), (''000000011'', 424)] 1) \<and>
   sum_list (map snd ([] :: (string \<times> int) list)) = 0 \<and>
   analyze_five_qubit_results [] 0 = Inl ZeroDivisionError"
proof -
  let ?c = "[(''00000 0000'', 600), (''00100 0011'', 424)] :: (string \<times> int) list"
  let ?d = "[(''11111 0000'', 600), (''000000011'', 424)] :: (string \<times> int) list"
  note inst = five_qubit_success_is_zero_syndrome [of ?c 0 1 ?d]
  note inst0 = five_qubit_success_is_zero_syndrome [of "[]" 0 0 "[]"]
  have total: "sum_list (map snd ?c) \<noteq> (0::int)" by simp
  have same: "map (\<lambda>(measurement, cnt). (snd (parse_measurement measurement), cnt)) ?c =
     map (\<lambda>(measurement, cnt). (snd (parse_measurement measurement), cnt)) ?d"
    by (simp add: parse_examples)
  from inst [THEN conjunct1, rule_format, OF total]
  obtain report where r: "analyze_five_qubit_results ?c 0 = Inr report"
    and "successful report =
           sum_list (map (\<lambda>(measurement, cnt).
             if snd (parse_measurement measurement) = ''0000'' then cnt else 0) ?c)"
    by blast
  then have s: "successful report = 600" by (simp add: parse_examples)
  from r s have a: "\<exists>report. analyze_five_qubit_results ?c 0 = Inr report \<and>
      successful report = 600" by blast
  note b = inst [THEN conjunct2, THEN conjunct2, THEN conjunct2, rule_format, OF same]
  have e: "sum_list (map snd ([] :: (string \<times> int) list)) = 0" by simp
  note z = inst0 [THEN conjunct2, THEN conjunct1, rule_format, OF e]
  from total a same b e z show ?thesis by (intro conjI)
qed

section \<open>Aggregation of the bit-flip tallies\<close>

lemma voted_simps:
  "voted iv True (k, c) = (if majority_vote (physical_bits_of k) = iv then c else 0)"
  "voted iv False (k, c) = (if majority_vote (physical_bits_of k) = iv then 0 else c)"
  by (simp_all add: voted_def)

lemma analyze_loop_eq:
  "analyze_loop t iv items (s, f) =
     (if items \<noteq> [] \<and> t = 0 then Inl ZeroDivisionError
      else Inr (s + sum_list (map (voted iv True) items),
                f + sum_list (map (voted iv False) items)))"
proof (induction items arbitrary: s f)
  case Nil
  show ?case by simp
next
  case (Cons item items)
  obtain k c where item: "item = (k, c)" by (cases item)
  show ?case
    by (simp add: item Cons.IH Let_def voted_simps)
qed

lemma analyze_results_eq:
  "analyze_results counts iv =
     (if counts \<noteq> [] \<and> sum_list (map snd counts) = 0 then Inl ZeroDivisionError
      else Inr (sum_list (map (voted iv True) counts),
                sum_list (map (voted iv False) counts)))"
proof -
  have "sort counts \<noteq> [] \<longleftrightarrow> counts \<noteq> []"
    by (metis length_sort length_0_conv)
  then show ?thesis
    by (simp add: analyze_results_def analyze_loop_eq sum_list_sort_key)
qed

lemma sum_counts_add:
  "sum_list (map (\<lambda>(k, v). if P k then v else 0) (counts_add key n acc)) =
     sum_list (map (\<lambda>(k, v). if P k then v else 0) acc) + (if P key then n else 0)"
  by (induction acc) auto

lemma sum_counts_sum:
  "sum_list (map (\<lambda>(k, v). if P k then v else 0) (counts_sum c1 c2)) =
     sum_list (map (\<lambda>(k, v). if P k then v else 0) c1) +
     sum_list (map (\<lambda>(k, v). if P k then v else 0) c2)"
  unfolding counts_sum_def
proof (induction c2 arbitrary: c1)
  case Nil
  show ?case by simp
next
  case (Cons item c2)
  obtain k v where item: "item = (k, v)" by (cases item)
  show ?case
    by (simp add: item Cons.IH sum_counts_add)
qed

lemma voted_sum:
  "sum_list (map (voted iv ok) (counts_sum c1 c2)) =
     sum_list (map (voted iv ok) c1) + sum_list (map (voted iv ok) c2)"
proof -
  have "voted iv ok =
     (\<lambda>(k, v). if (majority_vote (physical_bits_of k) = iv) = ok then v else 0)"
    by (auto simp: voted_def fun_eq_iff)
  then show ?thesis
    by (simp only: sum_counts_sum)
qed

lemma total_sum:
  "sum_list (map snd (counts_sum c1 c2)) = sum_list (map snd c1) + sum_list (map snd c2)"
  using sum_counts_sum [of "\<lambda>k. True" c1 c2] by (simp add: case_prod_unfold)

lemma counts_get_add:
  "counts_get (counts_add k n acc) key = counts_get acc key + (if k = key then n else 0)"
  by (induction acc) auto

lemma keys_counts_add:
  "map fst (counts_add k n acc) = (if k \<in> fst ` set acc then map fst acc else map fst acc @ [k])"
proof (induction acc)
  case Nil
  show ?case by simp
next
  case (Cons item acc)
  obtain a b where item: "item = (a, b)" by (cases item)
  show ?case
    by (cases "a = k") (simp_all add: item Cons.IH)
qed

lemma distinct_counts_add:
  "distinct (map fst acc) \<Longrightarrow> distinct (map fst (counts_add k n acc))"
  by (simp add: keys_counts_add)

lemma distinct_counts_sum:
  "distinct (map fst c1) \<Longrightarrow> distinct (map fst (counts_sum c1 c2))"
  unfolding counts_sum_def
  by (induction c2 arbitrary: c1) (auto simp: distinct_counts_add)

lemma counts_get_absent: "key \<notin> fst ` set c \<Longrightarrow> counts_get c key = 0"
  by (induction c) auto

lemma counts_get_sum:
  "distinct (map fst c2) \<Longrightarrow>
     counts_get (counts_sum c1 c2) key = counts_get c1 key + counts_get c2 key"
  unfolding counts_sum_def
proof (induction c2 arbitrary: c1)
  case Nil
  show ?case by simp
next
  case (Cons item c2)
  obtain k v where item: "item = (k, v)" by (cases item)
  from Cons.prems have d: "distinct (map fst c2)" and k: "k \<notin> fst ` set c2"
    by (simp_all add: item)
  show ?case
    using counts_get_absent [OF k]
    by (auto simp add: item Cons.IH [OF d] counts_get_add)
qed

lemma positive_sum:
  "\<forall>(k, v) \<in> set c. 0 < (v::int) \<Longrightarrow> c \<noteq> [] \<Longrightarrow> 0 < sum_list (map snd c)"
proof (induction c)
  case Nil
  then show ?case by simp
next
  case (Cons item c)
  then show ?case by (cases c) (auto simp: add_pos_pos)
qed

lemma positive_sum_nonneg:
  "\<forall>(k, v) \<in> set c. 0 < (v::int) \<Longrightarrow> 0 \<le> sum_list (map snd c)"
  using positive_sum [of c] by (cases c) auto

lemma counts_add_not_Nil: "counts_add k n acc \<noteq> []"
  by (cases "(k, n, acc)" rule: counts_add.cases) simp_all

lemma counts_sum_Nil_iff: "counts_sum c1 c2 = [] \<longleftrightarrow> c1 = [] \<and> c2 = []"
  unfolding counts_sum_def
proof (induction c2 arbitrary: c1)
  case Nil
  show ?case by simp
next
  case (Cons item c2)
  obtain k v where item: "item = (k, v)" by (cases item)
  have "fold (\<lambda>(k, v) acc. counts_add k v acc) c2 (counts_add k v c1) \<noteq> []"
    unfolding Cons.IH [of "counts_add k v c1"] by (simp add: counts_add_not_Nil)
  then show ?case by (simp add: item)
qed

lemma vote_examples:
  "majority_vote (physical_bits_of ''10 000'') = 0"
  "majority_vote (physical_bits_of ''01 110'') = 1"
  "majority_vote (physical_bits_of ''11 111'') = 1"
  by (simp_all add: majority_vote_def physical_bits_of_def str_split_def isspace_def)

text \<open>
  Claim C9. The tallies of \<^verbatim>\<open>analyze_results\<close> are additive. For every expected input and
  every two dictionaries of counts, whenever the analysis of each and of their pointwise
  sum returns, the success and failure tallies of the sum are the sums of the tallies of
  the two; and the three analyses do return when the counts are positive, as the counts
  of observed outcomes are. (A non-empty dictionary whose counts add up to zero makes the
  analysis divide by zero.) For dictionaries, whose keys are distinct, \<open>counts_sum\<close> is
  the pointwise sum.
\<close>

theorem analyze_results_additive:
  "(\<forall>s1 f1 s2 f2 s f.
      analyze_results c1 input_value = Inr (s1, f1) \<and>
      analyze_results c2 input_value = Inr (s2, f2) \<and>
      analyze_results (counts_sum c1 c2) input_value = Inr (s, f)
      \<longrightarrow> s = s1 + s2 \<and> f = f1 + f2) \<and>
   ((\<forall>(k, v) \<in> set c1. 0 < v) \<and> (\<forall>(k, v) \<in> set c2. 0 < v) \<longrightarrow>
      (\<exists>s1 f1 s2 f2.
         analyze_results c1 input_value = Inr (s1, f1) \<and>
         analyze_results c2 input_value = Inr (s2, f2) \<and>
         analyze_results (counts_sum c1 c2) input_value = Inr (s1 + s2, f1 + f2))) \<and>
   (distinct (map fst c1) \<and> distinct (map fst c2) \<longrightarrow>
      distinct (map fst (counts_sum c1 c2)) \<and>
      (\<forall>key. counts_get (counts_sum c1 c2) key = counts_get c1 key + counts_get c2 key))"
proof -
  have add: "s = s1 + s2 \<and> f = f1 + f2"
    if "analyze_results c1 input_value = Inr (s1, f1)"
      "analyze_results c2 input_value = Inr (s2, f2)"
      "analyze_results (counts_sum c1 c2) input_value = Inr (s, f)"
    for s1 f1 s2 f2 s f
    using that by (simp add: analyze_results_eq voted_sum split: if_splits)
  have ret: "\<exists>s1 f1 s2 f2.
         analyze_results c1 input_value = Inr (s1, f1) \<and>
         analyze_results c2 input_value = Inr (s2, f2) \<and>
         analyze_results (counts_sum c1 c2) input_value = Inr (s1 + s2, f1 + f2)"
    if p1: "\<forall>(k, v) \<in> set c1. 0 < v" and p2: "\<forall>(k, v) \<in> set c2. 0 < v"
  proof -
    have n1: "c1 \<noteq> [] \<Longrightarrow> sum_list (map snd c1) \<noteq> 0"
      using positive_sum [OF p1] by simp
    have n2: "c2 \<noteq> [] \<Longrightarrow> sum_list (map snd c2) \<noteq> 0"
      using positive_sum [OF p2] by simp
    have n: "counts_sum c1 c2 \<noteq> [] \<Longrightarrow> sum_list (map snd (counts_sum c1 c2)) \<noteq> 0"
      using positive_sum [OF p1] positive_sum [OF p2]
        positive_sum_nonneg [OF p1] positive_sum_nonneg [OF p2]
      by (cases "c1 = []"; cases "c2 = []") (auto simp: total_sum counts_sum_Nil_iff)
    show ?thesis
      using n1 n2 n by (auto simp add: analyze_results_eq voted_sum)
  qed
  have pw: "distinct (map fst (counts_sum c1 c2)) \<and>
      (\<forall>key. counts_get (counts_sum c1 c2) key = counts_get c1 key + counts_get c2 key)"
    if "distinct (map fst c1)" "distinct (map fst c2)"
    using that by (simp add: distinct_counts_sum counts_get_sum)
  show ?thesis
  proof (intro conjI)
    show "\<forall>s1 f1 s2 f2 s f.
      analyze_results c1 input_value = Inr (s1, f1) \<and>
      analyze_results c2 input_value = Inr (s2, f2) \<and>
      analyze_results (counts_sum c1 c2) input_value = Inr (s, f)
      \<longrightarrow> s = s1 + s2 \<and> f = f1 + f2"
      by (intro allI impI; elim conjE; rule add; assumption)
    show "(\<forall>(k, v) \<in> set c1. 0 < v) \<and> (\<forall>(k, v) \<in> set c2. 0 < v) \<longrightarrow>
      (\<exists>s1 f1 s2 f2.
         analyze_results c1 input_value = Inr (s1, f1) \<and>
         analyze_results c2 input_value = Inr (s2, f2) \<and>
         analyze_results (counts_sum c1 c2) input_value = Inr (s1 + s2, f1 + f2))"
      by (intro impI; elim conjE; rule ret; assumption)
    show "distinct (map fst c1) \<and> distinct (map fst c2) \<longrightarrow>
      distinct (map fst (counts_sum c1 c2)) \<and>
      (\<forall>key. counts_get (counts_sum c1 c2) key = counts_get c1 key + counts_get c2 key)"
      by (intro impI; elim conjE; rule pw; assumption)
  qed
qed

theorem analyze_results_additive_witness:
  "(0::int) < 500 \<and> (0::int) < 12 \<and> (0::int) < 400 \<and> (0::int) < 112 \<and>
   distinct (map fst [(''10 000'', 500::int), (''01 110'', 12)]) \<and>
   distinct (map fst [(''10 000'', 400::int), (''11 111'', 112)]) \<and>
   analyze_results [(''10 000'', 500), (''01 110'', 12)] 0 = Inr (500, 12) \<and>
   analyze_results [(''10 000'', 400), (''11 111'', 112)] 0 = Inr (400, 112) \<and>
   analyze_results
     (counts_sum [(''10 000'', 500), (''01 110'', 12)] [(''10 000'', 400), (''11 111'', 112)]) 0 =
     Inr (500 + 400, 12 + 112) \<and>
   counts_get
     (counts_sum [(''10 000'', 500), (''01 110'', 12)] [(''10 000'', 400), (''11 111'', 112)])
     ''10 000'' = 500 + 400"
proof -
  let ?c1 = "[(''10 000'', 500), (''01 110'', 12)] :: (string \<times> int) list"
  let ?c2 = "[(''10 000'', 400), (''11 111'', 112)] :: (string \<times> int) list"
  note inst = analyze_results_additive [of ?c1 0 ?c2]
  have p1: "\<forall>(k, v) \<in> set ?c1. 0 < v" and p2: "\<forall>(k, v) \<in> set ?c2. 0 < v"
    by simp_all
  have d1: "distinct (map fst ?c1)" and d2: "distinct (map fst ?c2)"
    by simp_all
  have r1: "analyze_results ?c1 0 = Inr (500, 12)"
    by (simp add: analyze_results_eq voted_def vote_examples)
  have r2: "analyze_results ?c2 0 = Inr (400, 112)"
    by (simp add: analyze_results_eq voted_def vote_examples)
  from inst [THEN conjunct2, THEN conjunct1, rule_format, OF conjI, OF p1 p2]
  obtain s1 f1 s2 f2 where
    "analyze_results ?c1 0 = Inr (s1, f1)" "analyze_results ?c2 0 = Inr (s2, f2)"
    and r: "analyze_results (counts_sum ?c1 ?c2) 0 = Inr (s1 + s2, f1 + f2)"
    by (elim exE conjE)
  with r1 r2 have "s1 = 500" "f1 = 12" "s2 = 400" "f2 = 112" by simp_all
  with r have r12: "analyze_results (counts_sum ?c1 ?c2) 0 = Inr (500 + 400, 12 + 112)"
    by simp
  from inst [THEN conjunct2, THEN conjunct2, rule_format, OF conjI, OF d1 d2]
  have "counts_get (counts_sum ?c1 ?c2) ''10 000'' =
          counts_get ?c1 ''10 000'' + counts_get ?c2 ''10 000''"
    by (elim conjE allE)
  then have g: "counts_get (counts_sum ?c1 ?c2) ''10 000'' = 500 + 400"
    by simp
  have pos: "(0::int) < 500" "(0::int) < 12" "(0::int) < 400" "(0::int) < 112"
    by simp_all
  from pos d1 d2 r1 r2 r12 g show ?thesis by (intro conjI)
qed

section \<open>The bit-flip code and its analysis\<close>

lemma readout_values:
  "bitflip_readout 0 True 0 = Some ([True, False], [True, False, False])"
  "bitflip_readout 0 True 1 = Some ([True, True], [False, True, False])"
  "bitflip_readout 0 True 2 = Some ([False, True], [False, False, True])"
  "bitflip_readout 1 True 0 = Some ([True, False], [False, True, True])"
  "bitflip_readout 1 True 1 = Some ([True, True], [True, False, True])"
  "bitflip_readout 1 True 2 = Some ([False, True], [True, True, False])"
  by (simp_all add: bitflip_readout_def create_bitflip_code_def reg_index_def run_circuit_def Let_def)

lemma readout_no_error:
  "bitflip_readout 0 False q = Some ([False, False], [False, False, False])"
  "bitflip_readout 1 False q = Some ([False, False], [True, True, True])"
  by (simp_all add: bitflip_readout_def create_bitflip_code_def run_circuit_def Let_def)

lemma run_qec_circuit_keys:
  "run_qec_circuit 0 True 0 n = Some [(''001 01'', n)]"
  "run_qec_circuit 0 True 1 n = Some [(''010 11'', n)]"
  "run_qec_circuit 0 True 2 n = Some [(''100 10'', n)]"
  "run_qec_circuit 1 True 0 n = Some [(''110 01'', n)]"
  "run_qec_circuit 1 True 1 n = Some [(''101 11'', n)]"
  "run_qec_circuit 1 True 2 n = Some [(''011 10'', n)]"
  by (simp_all add: run_qec_circuit_def readout_values bitflip_key_def register_word_def
        bit_char_def)

text \<open>
  Claim C3. The circuit part holds: for each input and each single X error the readout is
  the one listed in \<open>readout_values\<close>, with syndrome \<open>(1,0)\<close>, \<open>(1,1)\<close>, \<open>(0,1)\<close> for an error on
  qubit 0, 1, 2, and the majority of the three physical bits is the input. But
  \<^verbatim>\<open>analyze_results\<close> does not vote on the physical bits. It votes on the second word of
  the key, which is the syndrome word. For input 0 with an X error on qubit 1 the key is
  \<^verbatim>\<open>'010 11'\<close>: the physical bits \<open>010\<close> have majority 0, the function reads \<open>11\<close>, gets 1,
  and counts all 1024 shots as failures. Both words of this key read the same in either
  direction, so the order of the bits inside a word plays no part.
\<close>

theorem bitflip_analysis_votes_on_syndrome_word:
  "bitflip_readout 0 True 1 = Some ([True, True], [False, True, False]) \<and>
   majority_vote (register_word [False, True, False]) = 0 \<and>
   run_qec_circuit 0 True 1 1024 = Some [(''010 11'', 1024)] \<and>
   physical_bits_of ''010 11'' = ''11'' \<and>
   analyze_results [(''010 11'', 1024)] 0 = Inr (0, 1024)"
proof -
  have r: "bitflip_readout 0 True 1 = Some ([True, True], [False, True, False])"
    by (rule readout_values(2))
  have v: "majority_vote (register_word [False, True, False]) = 0"
    by (simp add: majority_vote_def register_word_def bit_char_def)
  have c: "run_qec_circuit 0 True 1 1024 = Some [(''010 11'', 1024)]"
    by (simp add: run_qec_circuit_def r bitflip_key_def register_word_def bit_char_def)
  have p: "physical_bits_of ''010 11'' = ''11''"
    by (simp add: physical_bits_of_def str_split_def isspace_def)
  have "majority_vote (physical_bits_of ''010 11'') = 1"
    by (simp add: p majority_vote_def)
  then have a: "analyze_results [(''010 11'', 1024)] 0 = Inr (0, 1024)"
    by (simp add: analyze_results_eq voted_def)
  from r v c p a show ?thesis by (intro conjI)
qed


section \<open>Syndrome extraction in the Steane circuit\<close>

lemma k_cases: "k < 3 \<Longrightarrow> k = 0 \<or> k = 1 \<or> k = (2::nat)"
  by auto

lemma steane_blocks_of_circuit:
  assumes "create_steane_code input_value apply_error error_qubit error_type = Inr qc"
    and "k < 3"
  shows "gates_on (SynX k) qc =
           [HGate (SynX k)] @ map (\<lambda>i. CXGate (SynX k) (Physical i)) (stabilizer_support k) @
           [HGate (SynX k), Measure (SynX k) (CSynX k)]"
    and "gates_on (SynZ k) qc =
           map (\<lambda>i. CXGate (Physical i) (SynZ k)) (stabilizer_support k) @
           [Measure (SynZ k) (CSynZ k)]"
  using assms(1) k_cases [OF assms(2)]
  by (auto simp add: create_steane_code_def Let_def gates_on_def stabilizer_support_def
        split: if_splits sum.splits)

lemma steane_circuit_built:
  assumes "\<not> apply_error \<or> error_type \<notin> {''X'', ''Z'', ''Y''} \<or>
           (- 7 \<le> error_qubit \<and> error_qubit < 7)"
  shows "\<exists>qc. create_steane_code input_value apply_error error_qubit error_type = Inr qc"
  using assms
  by (auto simp add: create_steane_code_def Let_def reg_index_def)

text \<open>
  Claim C8. In every circuit \<^verbatim>\<open>create_steane_code\<close> returns (and it returns one unless an
  error is injected at an index outside the register), each syndrome ancilla is coupled
  to the support of its stabilizer generator and to nothing else. For \<open>k = 0, 1, 2\<close> the
  operations on the X-type ancilla \<open>k\<close> are, in order: a Hadamard, a controlled-X from the
  ancilla onto each of the four data qubits of the support \<open>{0,1,2,3}\<close>, \<open>{2,3,4,5}\<close>,
  \<open>{4,5,6,0}\<close>, a Hadamard, and its measurement. The operations on the Z-type ancilla \<open>k\<close>
  are a controlled-X from each of the same four data qubits onto the ancilla and its
  measurement, with no Hadamard.
\<close>

theorem steane_syndrome_blocks:
  "(\<not> apply_error \<or> error_type \<notin> {''X'', ''Z'', ''Y''} \<or>
      (- 7 \<le> error_qubit \<and> error_qubit < 7) \<longrightarrow>
      (\<exists>qc. create_steane_code input_value apply_error error_qubit error_type = Inr qc)) \<and>
   (\<forall>qc k. create_steane_code input_value apply_error error_qubit error_type = Inr qc \<and> k < 3
      \<longrightarrow>
        gates_on (SynX k) qc =
          [HGate (SynX k)] @ map (\<lambda>i. CXGate (SynX k) (Physical i)) (stabilizer_support k) @
          [HGate (SynX k), Measure (SynX k) (CSynX k)] \<and>
        gates_on (SynZ k) qc =
          map (\<lambda>i. CXGate (Physical i) (SynZ k)) (stabilizer_support k) @
          [Measure (SynZ k) (CSynZ k)])"
proof (intro conjI allI impI)
  assume "\<not> apply_error \<or> error_type \<notin> {''X'', ''Z'', ''Y''} \<or>
      (- 7 \<le> error_qubit \<and> error_qubit < 7)"
  then show "\<exists>qc. create_steane_code input_value apply_error error_qubit error_type = Inr qc"
    by (rule steane_circuit_built)
next
  fix qc :: "gate list" and k :: nat
  assume "create_steane_code input_value apply_error error_qubit error_type = Inr qc \<and> k < 3"
  then have c: "create_steane_code input_value apply_error error_qubit error_type = Inr qc"
    and k: "k < 3" by simp_all
  show "gates_on (SynX k) qc =
          [HGate (SynX k)] @ map (\<lambda>i. CXGate (SynX k) (Physical i)) (stabilizer_support k) @
          [HGate (SynX k), Measure (SynX k) (CSynX k)]"
    by (rule steane_blocks_of_circuit(1) [OF c k])
next
  fix qc :: "gate list" and k :: nat
  assume "create_steane_code input_value apply_error error_qubit error_type = Inr qc \<and> k < 3"
  then have c: "create_steane_code input_value apply_error error_qubit error_type = Inr qc"
    and k: "k < 3" by simp_all
  show "gates_on (SynZ k) qc =
          map (\<lambda>i. CXGate (Physical i) (SynZ k)) (stabilizer_support k) @
          [Measure (SynZ k) (CSynZ k)]"
    by (rule steane_blocks_of_circuit(2) [OF c k])
qed

theorem steane_syndrome_blocks_witness:
  "(- 7 \<le> (3::int) \<and> (3::int) < 7) \<and> (1::nat) < 3 \<and>
   (\<exists>qc. create_steane_code 0 True 3 ''X'' = Inr qc \<and>
      gates_on (SynX 1) qc =
        [HGate (SynX 1),
         CXGate (SynX 1) (Physical 2), CXGate (SynX 1) (Physical 3),
         CXGate (SynX 1) (Physical 4), CXGate (SynX 1) (Physical 5),
         HGate (SynX 1), Measure (SynX 1) (CSynX 1)] \<and>
      gates_on (SynZ 1) qc =
        [CXGate (Physical 2) (SynZ 1), CXGate (Physical 3) (SynZ 1),
         CXGate (Physical 4) (SynZ 1), CXGate (Physical 5) (SynZ 1),
         Measure (SynZ 1) (CSynZ 1)])"
proof -
  note inst = steane_syndrome_blocks [of True "''X''" 3 0]
  have range: "- 7 \<le> (3::int) \<and> (3::int) < 7" by simp
  have k: "(1::nat) < 3" by simp
  from inst [THEN conjunct1, rule_format, OF disjI2, OF disjI2, OF range]
  obtain qc where c: "create_steane_code 0 True 3 ''X'' = Inr qc" ..
  from inst [THEN conjunct2, rule_format, OF conjI, OF c k]
  have b: "gates_on (SynX 1) qc =
          [HGate (SynX 1)] @ map (\<lambda>i. CXGate (SynX 1) (Physical i)) (stabilizer_support 1) @
          [HGate (SynX 1), Measure (SynX 1) (CSynX 1)] \<and>
        gates_on (SynZ 1) qc =
          map (\<lambda>i. CXGate (Physical i) (SynZ 1)) (stabilizer_support 1) @
          [Measure (SynZ 1) (CSynZ 1)]" .
  then have "gates_on (SynX 1) qc =
        [HGate (SynX 1),
         CXGate (SynX 1) (Physical 2), CXGate (SynX 1) (Physical 3),
         CXGate (SynX 1) (Physical 4), CXGate (SynX 1) (Physical 5),
         HGate (SynX 1), Measure (SynX 1) (CSynX 1)] \<and>
      gates_on (SynZ 1) qc =
        [CXGate (Physical 2) (SynZ 1), CXGate (Physical 3) (SynZ 1),
         CXGate (Physical 4) (SynZ 1), CXGate (Physical 5) (SynZ 1),
         Measure (SynZ 1) (CSynZ 1)]"
    by (simp add: stabilizer_support_def)
  with c have ex: "\<exists>qc. create_steane_code 0 True 3 ''X'' = Inr qc \<and>
      gates_on (SynX 1) qc =
        [HGate (SynX 1),
         CXGate (SynX 1) (Physical 2), CXGate (SynX 1) (Physical 3),
         CXGate (SynX 1) (Physical 4), CXGate (SynX 1) (Physical 5),
         HGate (SynX 1), Measure (SynX 1) (CSynX 1)] \<and>
      gates_on (SynZ 1) qc =
        [CXGate (Physical 2) (SynZ 1), CXGate (Physical 3) (SynZ 1),
         CXGate (Physical 4) (SynZ 1), CXGate (Physical 5) (SynZ 1),
         Measure (SynZ 1) (CSynZ 1)]"
    by (intro exI [of _ qc] conjI) simp_all
  show ?thesis by (rule conjI [OF range conjI [OF k ex]])
qed

end
